theory Spec2Isabelle
  imports Complex_Main "HOL-Library.Word"
begin

section \<open>Scalars, vectors and the collaborators of the NCP local residual\<close>

text \<open>
  \<^verbatim>\<open>Scalar\<close> is a property of the type tag (\<^verbatim>\<open>double\<close> by default, see
  \<^verbatim>\<open>dumux/new_models/tags.hh\<close>). Its values are taken as real numbers, and sums,
  products, quotients and comparisons as exact. The subtraction in the loop of
  \<^verbatim>\<open>phaseNotPresentIneq_\<close> is the one of \<^verbatim>\<open>Scalar\<close> and comes with the type tag
  (\<open>Scalar_minus\<close> below): what the loop returns for mole fractions that sum to 1 depends
  on whether it rounds. Names of the source that end in an underscore (\<^verbatim>\<open>phaseNcp_\<close>,
  \<^verbatim>\<open>relDefect_\<close>, ...) lose it here, since such names are reserved in Isabelle.
\<close>

type_synonym Scalar = real

text \<open>
  \<^verbatim>\<open>EqVector\<close>, \<^verbatim>\<open>RateVector\<close> and \<^verbatim>\<open>PrimaryVariables\<close> are field vectors with
  \<^verbatim>\<open>numEq\<close> entries; \<^verbatim>\<open>LocalBlockVector\<close> is a block vector with one \<^verbatim>\<open>EqVector\<close>
  for each sub-control volume.
\<close>

type_synonym EqVector = "Scalar list"
type_synonym RateVector = "Scalar list"
type_synonym PrimaryVariables = "Scalar list"
type_synonym LocalBlockVector = "EqVector list"

text \<open>\<^verbatim>\<open>v = 0\<close>, \<^verbatim>\<open>v *= c\<close> and \<^verbatim>\<open>v += w\<close> on field vectors.\<close>

definition vzero :: "nat \<Rightarrow> Scalar list" where
  "vzero n = replicate n 0"

definition vscale :: "Scalar list \<Rightarrow> Scalar \<Rightarrow> Scalar list" where
  "vscale v c = map (\<lambda>x. x * c) v"

definition vadd :: "Scalar list \<Rightarrow> Scalar list \<Rightarrow> Scalar list" where
  "vadd v w = map2 (+) v w"

text \<open>
  The fluid state, the volume variables, the finite-volume geometry and the element
  context are collaborators of the residual: only their accessors are used. Indices are
  \<^verbatim>\<open>int\<close> in the source and \<open>int\<close> here; every counter of a loop stays at or below
  the bound it is compared with, so none of them overflows.
\<close>

record FluidState =
  saturation :: "int \<Rightarrow> Scalar"
  moleFraction :: "int \<Rightarrow> int \<Rightarrow> Scalar"

record VolumeVariables =
  fluidState :: FluidState
  extrusionFactor :: Scalar

record SubControlVolume =
  volume :: Scalar

record FVElementGeometry =
  subContVol :: "int \<Rightarrow> SubControlVolume"

record ElementContext =
  numScv :: int
  volVars :: "int \<Rightarrow> int \<Rightarrow> VolumeVariables"
  evalPointVolVars :: "int \<Rightarrow> int \<Rightarrow> VolumeVariables"
  fvElemGeom :: "int \<Rightarrow> FVElementGeometry"

text \<open>
  The compile-time properties of the type tag (with the subtraction of its \<^verbatim>\<open>Scalar\<close>),
  and the functions of other classes that the residual calls: the mass and energy residuals, the source term of the problem and
  \<^verbatim>\<open>BoxLocalResidual::eval\<close>. Each of them writes to a vector passed by reference, so
  each takes the vector as it is before the call and returns it as it is after.
\<close>

record TypeTag =
  Scalar_minus :: "Scalar \<Rightarrow> Scalar \<Rightarrow> Scalar"
  numPhases :: int
  numComponents :: int
  enableEnergy :: bool
  phase0NcpIdx :: int
  numEq :: nat
  MassResid_computeStorage :: "EqVector \<Rightarrow> VolumeVariables \<Rightarrow> EqVector"
  EnergyResid_computeStorage :: "EqVector \<Rightarrow> VolumeVariables \<Rightarrow> EqVector"
  MassResid_addPhaseStorage :: "PrimaryVariables \<Rightarrow> VolumeVariables \<Rightarrow> int \<Rightarrow> PrimaryVariables"
  EnergyResid_addPhaseStorage :: "PrimaryVariables \<Rightarrow> VolumeVariables \<Rightarrow> int \<Rightarrow> PrimaryVariables"
  problem_source :: "RateVector \<Rightarrow> ElementContext \<Rightarrow> int \<Rightarrow> int \<Rightarrow> RateVector"
  MassResid_computeSource :: "RateVector \<Rightarrow> ElementContext \<Rightarrow> int \<Rightarrow> int \<Rightarrow> RateVector"
  EnergyResid_computeSource :: "RateVector \<Rightarrow> ElementContext \<Rightarrow> int \<Rightarrow> RateVector"
  MassResid_computeFlux :: "RateVector \<Rightarrow> ElementContext \<Rightarrow> int \<Rightarrow> int \<Rightarrow> RateVector"
  ParentType_eval :: "LocalBlockVector \<Rightarrow> LocalBlockVector \<Rightarrow> ElementContext
                        \<Rightarrow> LocalBlockVector \<times> LocalBlockVector"

section \<open>The phase inequalities and the NCP function\<close>

text \<open>\<^verbatim>\<open>phasePresentIneq_\<close>: the saturation of the phase.\<close>

definition phasePresentIneq :: "FluidState \<Rightarrow> int \<Rightarrow> Scalar" where
  "phasePresentIneq fs phaseIdx = saturation fs phaseIdx"

text \<open>
  \<^verbatim>\<open>phaseNotPresentIneq_\<close>: \<^verbatim>\<open>a = 1; for (i = 0; i < numComponents; ++i)
  a -= fluidState.moleFraction(phaseIdx, i); return a\<close>. The loop is the function
  \<open>phaseNotPresentIneq_loop\<close> of the counter and of \<open>a\<close>.
\<close>

function phaseNotPresentIneq_loop :: "TypeTag \<Rightarrow> FluidState \<Rightarrow> int \<Rightarrow> int \<Rightarrow> Scalar \<Rightarrow> Scalar" where
  "phaseNotPresentIneq_loop T fs phaseIdx i a =
     (if i < numComponents T
      then phaseNotPresentIneq_loop T fs phaseIdx (i + 1)
             (Scalar_minus T a (moleFraction fs phaseIdx i))
      else a)"
  by pat_completeness auto
termination
  by (relation "measure (\<lambda>(T, fs, phaseIdx, i, a). nat (numComponents T - i))") auto

declare phaseNotPresentIneq_loop.simps [simp del]

definition phaseNotPresentIneq :: "TypeTag \<Rightarrow> FluidState \<Rightarrow> int \<Rightarrow> Scalar" where
  "phaseNotPresentIneq T fs phaseIdx =
     phaseNotPresentIneq_loop T fs phaseIdx 0 1"

text \<open>
  \<^verbatim>\<open>phaseNcp_\<close>: both inequalities at the evaluation point decide which of them, at the
  current fluid state, is returned.
\<close>

definition phaseNcp :: "TypeTag \<Rightarrow> ElementContext \<Rightarrow> int \<Rightarrow> int \<Rightarrow> int \<Rightarrow> Scalar" where
  "phaseNcp T elemCtx scvIdx timeIdx phaseIdx =
     (let fsEval = fluidState (evalPointVolVars elemCtx scvIdx timeIdx);
          fs = fluidState (volVars elemCtx scvIdx timeIdx);
          aEval = phaseNotPresentIneq T fsEval phaseIdx;
          bEval = phasePresentIneq fsEval phaseIdx
      in if aEval > bEval
         then phasePresentIneq fs phaseIdx
         else phaseNotPresentIneq T fs phaseIdx)"

section \<open>Storage, source and flux terms\<close>

text \<open>
  \<^verbatim>\<open>computeStorage\<close>: \<^verbatim>\<open>storage = 0\<close> sets every entry of the vector to zero, then the
  mass and the energy residual write to it in this order. The calls of
  \<^verbatim>\<open>Valgrind::CheckDefined\<close> and \<^verbatim>\<open>Valgrind::SetUndefined\<close> here and below change no
  value and are left out.
\<close>

definition computeStorage :: "TypeTag \<Rightarrow> EqVector \<Rightarrow> ElementContext \<Rightarrow> int \<Rightarrow> int \<Rightarrow> EqVector" where
  "computeStorage T storage elemCtx scvIdx timeIdx =
     (let vv = volVars elemCtx scvIdx timeIdx;
          storage = vzero (length storage);
          storage = MassResid_computeStorage T storage vv;
          storage = EnergyResid_computeStorage T storage vv
      in storage)"

text \<open>
  \<^verbatim>\<open>addPhaseStorage\<close>: the loop over the sub-control volumes, as a function of the
  counter and of \<^verbatim>\<open>storage\<close>. \<^verbatim>\<open>tmp\<close> is a fresh \<^verbatim>\<open>PrimaryVariables(0.0)\<close> in every
  pass.
\<close>

function addPhaseStorage_loop :: "TypeTag \<Rightarrow> ElementContext \<Rightarrow> int \<Rightarrow> int \<Rightarrow> EqVector \<Rightarrow> EqVector" where
  "addPhaseStorage_loop T elemCtx phaseIdx scvIdx storage =
     (if scvIdx < numScv elemCtx
      then (let tmp = vzero (numEq T);
                tmp = MassResid_addPhaseStorage T tmp (volVars elemCtx scvIdx 0) phaseIdx;
                tmp = EnergyResid_addPhaseStorage T tmp (volVars elemCtx scvIdx 0) phaseIdx;
                tmp = vscale tmp (extrusionFactor (volVars elemCtx scvIdx 0) *
                                  volume (subContVol (fvElemGeom elemCtx 0) scvIdx));
                storage = vadd storage tmp
            in addPhaseStorage_loop T elemCtx phaseIdx (scvIdx + 1) storage)
      else storage)"
  by pat_completeness auto
termination
  by (relation "measure (\<lambda>(T, elemCtx, phaseIdx, scvIdx, storage). nat (numScv elemCtx - scvIdx))") auto

declare addPhaseStorage_loop.simps [simp del]

definition addPhaseStorage :: "TypeTag \<Rightarrow> EqVector \<Rightarrow> ElementContext \<Rightarrow> int \<Rightarrow> EqVector" where
  "addPhaseStorage T storage elemCtx phaseIdx = addPhaseStorage_loop T elemCtx phaseIdx 0 storage"

text \<open>
  \<^verbatim>\<open>computeSource\<close>: the source term of the problem is written to \<^verbatim>\<open>source\<close>, the mass
  residual writes to a fresh \<^verbatim>\<open>RateVector tmp(0)\<close>, and \<^verbatim>\<open>tmp\<close> is added. The call of
  \<^verbatim>\<open>EnergyResid::computeSource\<close> is commented out in the source and absent here.
\<close>

definition computeSource :: "TypeTag \<Rightarrow> RateVector \<Rightarrow> ElementContext \<Rightarrow> int \<Rightarrow> int \<Rightarrow> RateVector" where
  "computeSource T source elemCtx scvIdx timeIdx =
     (let source = problem_source T source elemCtx scvIdx timeIdx;
          tmp = vzero (numEq T);
          tmp = MassResid_computeSource T tmp elemCtx scvIdx timeIdx;
          source = vadd source tmp
      in source)"

text \<open>\<^verbatim>\<open>computeFlux\<close>: \<^verbatim>\<open>flux = 0.0\<close>, then the mass residual writes to it.\<close>

definition computeFlux :: "TypeTag \<Rightarrow> RateVector \<Rightarrow> ElementContext \<Rightarrow> int \<Rightarrow> int \<Rightarrow> RateVector" where
  "computeFlux T flux elemCtx scvfIdx timeIdx =
     (let flux = vzero (length flux);
          flux = MassResid_computeFlux T flux elemCtx scvfIdx timeIdx
      in flux)"

section \<open>The local residual\<close>

text \<open>
  \<^verbatim>\<open>residual[scvIdx][eqIdx] = v\<close>. Neither the block vector nor the field vector checks
  its index; a write outside of them has no defined result, which is \<open>None\<close> here.
\<close>

definition setEntry :: "LocalBlockVector \<Rightarrow> int \<Rightarrow> int \<Rightarrow> Scalar \<Rightarrow> LocalBlockVector option" where
  "setEntry residual scvIdx eqIdx v =
     (if 0 \<le> scvIdx \<and> scvIdx < int (length residual) \<and>
         0 \<le> eqIdx \<and> eqIdx < int (length (residual ! nat scvIdx))
      then Some (residual[nat scvIdx := (residual ! nat scvIdx)[nat eqIdx := v]])
      else None)"

text \<open>The inner loop of \<^verbatim>\<open>eval\<close>, over the phases, and the outer one, over the sub-control volumes.\<close>

function eval_phaseLoop :: "TypeTag \<Rightarrow> ElementContext \<Rightarrow> int \<Rightarrow> int \<Rightarrow> LocalBlockVector
                              \<Rightarrow> LocalBlockVector option" where
  "eval_phaseLoop T elemCtx scvIdx phaseIdx residual =
     (if phaseIdx < numPhases T
      then (case setEntry residual scvIdx (phase0NcpIdx T + phaseIdx)
                   (phaseNcp T elemCtx scvIdx 0 phaseIdx) of
              None \<Rightarrow> None
            | Some residual' \<Rightarrow> eval_phaseLoop T elemCtx scvIdx (phaseIdx + 1) residual')
      else Some residual)"
  by pat_completeness auto
termination
  by (relation "measure (\<lambda>(T, elemCtx, scvIdx, phaseIdx, residual). nat (numPhases T - phaseIdx))") auto

declare eval_phaseLoop.simps [simp del]

function eval_scvLoop :: "TypeTag \<Rightarrow> ElementContext \<Rightarrow> int \<Rightarrow> int \<Rightarrow> LocalBlockVector
                            \<Rightarrow> LocalBlockVector option" where
  "eval_scvLoop T elemCtx numScv' scvIdx residual =
     (if scvIdx < numScv'
      then (case eval_phaseLoop T elemCtx scvIdx 0 residual of
              None \<Rightarrow> None
            | Some residual' \<Rightarrow> eval_scvLoop T elemCtx numScv' (scvIdx + 1) residual')
      else Some residual)"
  by pat_completeness auto
termination
  by (relation "measure (\<lambda>(T, elemCtx, numScv', scvIdx, residual). nat (numScv' - scvIdx))") auto

declare eval_scvLoop.simps [simp del]

text \<open>
  \<^verbatim>\<open>eval\<close>: the base class fills \<^verbatim>\<open>residual\<close> and \<^verbatim>\<open>storageTerm\<close>, then the loops write
  the NCP rows of \<^verbatim>\<open>residual\<close>.
\<close>

definition eval :: "TypeTag \<Rightarrow> LocalBlockVector \<Rightarrow> LocalBlockVector \<Rightarrow> ElementContext
                      \<Rightarrow> (LocalBlockVector \<times> LocalBlockVector) option" where
  "eval T residual storageTerm elemCtx =
     (case ParentType_eval T residual storageTerm elemCtx of
        (residual, storageTerm) \<Rightarrow>
          (case eval_scvLoop T elemCtx (numScv elemCtx) 0 residual of
             None \<Rightarrow> None
           | Some residual' \<Rightarrow> Some (residual', storageTerm)))"

section \<open>The Newton controller of the 1p2c lens problem\<close>

text \<open>
  An entry of a solution function holds the two primary variables of the 1p2c model,
  read in the source as \<^verbatim>\<open>(*u)[i][konti]\<close> and \<^verbatim>\<open>(*u)[i][transport]\<close>.
\<close>

record OnePTwoCPrimaryVariables =
  konti :: Scalar
  transport :: Scalar

type_synonym SolutionFunction = "OnePTwoCPrimaryVariables list"

text \<open>
  The members of the base class \<^verbatim>\<open>NewtonController\<close> that this file sets or reads, and
  the two members of the derived class.
\<close>

record NewtonController =
  tolerance :: Scalar
  targetSteps :: int
  maxSteps :: int

record LensOnePTwoCNewtonController = NewtonController +
  relDefect :: Scalar
  maxTimeStepSize :: Scalar

text \<open>
  The two methods of the base class that the controller calls. The base class is not
  among the sources; what it does to the controller is a parameter of the model. The
  solution functions belong to the Newton method and are only read.
\<close>

record ParentType =
  ParentType_newtonEndStep :: "LensOnePTwoCNewtonController \<Rightarrow> SolutionFunction \<Rightarrow> SolutionFunction
                                 \<Rightarrow> LensOnePTwoCNewtonController"
  ParentType_suggestTimeStepSize :: "LensOnePTwoCNewtonController \<Rightarrow> Scalar \<Rightarrow> Scalar"

text \<open>
  The constructor: \<^verbatim>\<open>setRelTolerance(1e-7)\<close>, \<^verbatim>\<open>setTargetSteps(9)\<close>,
  \<^verbatim>\<open>setMaxSteps(18)\<close>, \<^verbatim>\<open>relDefect_ = 1e100\<close>, and the largest time step size as read
  from the interface file, which is the argument here.
\<close>

definition LensOnePTwoCNewtonController_ctor :: "Scalar \<Rightarrow> LensOnePTwoCNewtonController" where
  "LensOnePTwoCNewtonController_ctor IPP_MaxTimeStepSize =
     \<lparr>tolerance = 1 / 10 ^ 7, targetSteps = 9, maxSteps = 18,
      relDefect = 10 ^ 100, maxTimeStepSize = IPP_MaxTimeStepSize\<rparr>"

text \<open>\<^verbatim>\<open>std::max(a, b)\<close> is \<^verbatim>\<open>(a < b) ? b : a\<close> and \<^verbatim>\<open>std::min(a, b)\<close> is \<^verbatim>\<open>(b < a) ? b : a\<close>.\<close>

definition std_max :: "Scalar \<Rightarrow> Scalar \<Rightarrow> Scalar" where
  "std_max a b = (if a < b then b else a)"

definition std_min :: "Scalar \<Rightarrow> Scalar \<Rightarrow> Scalar" where
  "std_min a b = (if b < a then b else a)"

text \<open>The body of the loop of \<^verbatim>\<open>newtonEndStep\<close> for one degree of freedom.\<close>

definition newtonEndStep_body :: "OnePTwoCPrimaryVariables \<Rightarrow> OnePTwoCPrimaryVariables \<Rightarrow> Scalar \<Rightarrow> Scalar" where
  "newtonEndStep_body u_i uOld_i relDefect' =
     (let normP = std_max 1000 \<bar>konti u_i\<bar>;
          normP = std_max normP \<bar>konti uOld_i\<bar>;
          normTrans = std_max (1 / 1000) \<bar>transport u_i\<bar>;
          normTrans = std_max normTrans \<bar>transport uOld_i\<bar>;
          relDefect' = std_max relDefect' (\<bar>konti u_i - konti uOld_i\<bar> / normP);
          relDefect' = std_max relDefect' (\<bar>transport u_i - transport uOld_i\<bar> / normTrans)
      in relDefect')"

text \<open>
  The loop \<^verbatim>\<open>for (unsigned i = 0; i < (*u).size(); ++i)\<close>. The counter has 32 bits and
  wraps around, so the loop does not end when \<^verbatim>\<open>u\<close> has \<open>2 ^ 32\<close> entries or more; a
  read of \<^verbatim>\<open>(*uOld)[i]\<close> beyond the end of \<^verbatim>\<open>uOld\<close> has no defined result. Both are
  \<open>None\<close>.
\<close>

partial_function (option) newtonEndStep_loop ::
  "32 word \<Rightarrow> SolutionFunction \<Rightarrow> SolutionFunction \<Rightarrow> Scalar \<Rightarrow> Scalar option" where
  "newtonEndStep_loop i u uOld relDefect' =
     (if unat i < length u
      then (if unat i < length uOld
            then newtonEndStep_loop (i + 1) u uOld
                   (newtonEndStep_body (u ! unat i) (uOld ! unat i) relDefect')
            else None)
      else Some relDefect')"

definition newtonEndStep :: "ParentType \<Rightarrow> LensOnePTwoCNewtonController \<Rightarrow> SolutionFunction
                              \<Rightarrow> SolutionFunction \<Rightarrow> LensOnePTwoCNewtonController option" where
  "newtonEndStep P this u uOld =
     (let this = ParentType_newtonEndStep P this u uOld;
          this = this\<lparr>relDefect := 0\<rparr>
      in case newtonEndStep_loop 0 u uOld (relDefect this) of
           None \<Rightarrow> None
         | Some relDefect' \<Rightarrow> Some (this\<lparr>relDefect := relDefect'\<rparr>))"

text \<open>\<^verbatim>\<open>suggestTimeStepSize\<close>, a \<^verbatim>\<open>const\<close> method.\<close>

definition suggestTimeStepSize :: "ParentType \<Rightarrow> LensOnePTwoCNewtonController \<Rightarrow> Scalar \<Rightarrow> Scalar" where
  "suggestTimeStepSize P this oldTimeStep =
     std_min (maxTimeStepSize this) (ParentType_suggestTimeStepSize P this oldTimeStep)"

text \<open>
  \<^verbatim>\<open>newtonConverged\<close> is not declared \<^verbatim>\<open>const\<close>; it returns its result together with
  the controller as it is after the call.
\<close>

definition newtonConverged :: "LensOnePTwoCNewtonController \<Rightarrow> bool \<times> LensOnePTwoCNewtonController" where
  "newtonConverged this = (relDefect this \<le> tolerance this, this)"

section \<open>Quantities that the properties are stated with\<close>

text \<open>
  What one pass of the loop of \<^verbatim>\<open>addPhaseStorage\<close> adds for the sub-control volume
  \<open>scvIdx\<close>: the vector \<^verbatim>\<open>tmp\<close> after the mass and the energy residual have written to
  it and it has been multiplied by the extrusion factor and the volume.
\<close>

definition phaseStorageOfScv :: "TypeTag \<Rightarrow> ElementContext \<Rightarrow> int \<Rightarrow> int \<Rightarrow> PrimaryVariables" where
  "phaseStorageOfScv T elemCtx phaseIdx scvIdx =
     vscale (EnergyResid_addPhaseStorage T
               (MassResid_addPhaseStorage T (vzero (numEq T)) (volVars elemCtx scvIdx 0) phaseIdx)
               (volVars elemCtx scvIdx 0) phaseIdx)
            (extrusionFactor (volVars elemCtx scvIdx 0) *
             volume (subContVol (fvElemGeom elemCtx 0) scvIdx))"

text \<open>
  A block of the residual with the NCP rows of the phases from \<open>phaseIdx\<close> on written,
  and a residual with this done, for all phases, in the blocks of the sub-control volumes
  from \<open>scvIdx\<close> up to \<open>numScv'\<close>.
\<close>

definition ncpRow :: "TypeTag \<Rightarrow> ElementContext \<Rightarrow> int \<Rightarrow> int \<Rightarrow> EqVector \<Rightarrow> EqVector" where
  "ncpRow T elemCtx scvIdx phaseIdx row =
     map (\<lambda>j. if phase0NcpIdx T + phaseIdx \<le> int j \<and> int j < phase0NcpIdx T + numPhases T
               then phaseNcp T elemCtx scvIdx 0 (int j - phase0NcpIdx T)
               else row ! j)
         [0..<length row]"

definition ncpRows :: "TypeTag \<Rightarrow> ElementContext \<Rightarrow> int \<Rightarrow> int \<Rightarrow> LocalBlockVector \<Rightarrow> LocalBlockVector" where
  "ncpRows T elemCtx numScv' scvIdx residual =
     map (\<lambda>s. if scvIdx \<le> int s \<and> int s < numScv'
               then ncpRow T elemCtx (int s) 0 (residual ! s)
               else residual ! s)
         [0..<length residual]"

text \<open>
  The relative differences of one degree of freedom, with the norms floored at 1e3 and
  1e-3, and the list of them over all degrees of freedom of \<^verbatim>\<open>u\<close>.
\<close>

definition kontiDefect :: "OnePTwoCPrimaryVariables \<Rightarrow> OnePTwoCPrimaryVariables \<Rightarrow> Scalar" where
  "kontiDefect u_i uOld_i =
     \<bar>konti u_i - konti uOld_i\<bar> / Max {1000, \<bar>konti u_i\<bar>, \<bar>konti uOld_i\<bar>}"

definition transportDefect :: "OnePTwoCPrimaryVariables \<Rightarrow> OnePTwoCPrimaryVariables \<Rightarrow> Scalar" where
  "transportDefect u_i uOld_i =
     \<bar>transport u_i - transport uOld_i\<bar> / Max {1 / 1000, \<bar>transport u_i\<bar>, \<bar>transport uOld_i\<bar>}"

definition defects :: "SolutionFunction \<Rightarrow> SolutionFunction \<Rightarrow> Scalar list" where
  "defects u uOld =
     concat (map (\<lambda>i. [kontiDefect (u ! i) (uOld ! i), transportDefect (u ! i) (uOld ! i)])
                 [0..<length u])"

text \<open>
  The states of the controller: the one the constructor gives, and those that a call of
  \<^verbatim>\<open>newtonEndStep\<close> that returns, or a call of \<^verbatim>\<open>newtonConverged\<close>, leads to.
\<close>

inductive reachable :: "ParentType \<Rightarrow> LensOnePTwoCNewtonController \<Rightarrow> bool" for P :: ParentType where
  constructed: "reachable P (LensOnePTwoCNewtonController_ctor IPP_MaxTimeStepSize)"
| endStep: "reachable P this \<Longrightarrow> newtonEndStep P this u uOld = Some this' \<Longrightarrow> reachable P this'"
| converged: "reachable P this \<Longrightarrow> reachable P (snd (newtonConverged this))"

section \<open>A small configuration, for the examples\<close>

text \<open>
  Two phases, two components, four equations, the NCP rows at 2 and 3, and a \<^verbatim>\<open>Scalar\<close>
  that subtracts exactly. The collaborators are simple stand-ins that write values
  depending on their arguments.
\<close>

definition exFluidState :: "Scalar \<Rightarrow> FluidState" where
  "exFluidState s = \<lparr>saturation = (\<lambda>phaseIdx. if phaseIdx = 0 then s else 1 - s),
                     moleFraction = (\<lambda>phaseIdx compIdx. if phaseIdx = 0 then 1 / 2 else 1 / 4)\<rparr>"

definition exElemCtx :: ElementContext where
  "exElemCtx = \<lparr>numScv = 2,
                volVars = (\<lambda>scvIdx timeIdx. \<lparr>fluidState = exFluidState (1 / 4), extrusionFactor = 2\<rparr>),
                evalPointVolVars = (\<lambda>scvIdx timeIdx. \<lparr>fluidState = exFluidState (if scvIdx = 0 then 0 else 3 / 4),
                                                    extrusionFactor = 2\<rparr>),
                fvElemGeom = (\<lambda>timeIdx. \<lparr>subContVol = (\<lambda>scvIdx. \<lparr>volume = 3\<rparr>)\<rparr>)\<rparr>"

definition exTypeTag :: TypeTag where
  "exTypeTag = \<lparr>Scalar_minus = (-), numPhases = 2, numComponents = 2, enableEnergy = True, phase0NcpIdx = 2, numEq = 4,
     MassResid_computeStorage = (\<lambda>storage vv. map (\<lambda>x. x + 1) storage),
     EnergyResid_computeStorage = (\<lambda>storage vv. map (\<lambda>x. x + 2) storage),
     MassResid_addPhaseStorage = (\<lambda>tmp vv phaseIdx. map (\<lambda>x. x + 1) tmp),
     EnergyResid_addPhaseStorage = (\<lambda>tmp vv phaseIdx. map (\<lambda>x. x + 2) tmp),
     problem_source = (\<lambda>source elemCtx scvIdx timeIdx. [1, 2, 3, 4]),
     MassResid_computeSource = (\<lambda>tmp elemCtx scvIdx timeIdx. map (\<lambda>x. x + 1) tmp),
     EnergyResid_computeSource = (\<lambda>tmp elemCtx scvIdx. map (\<lambda>x. x + 5) tmp),
     MassResid_computeFlux = (\<lambda>flux elemCtx scvfIdx timeIdx. map (\<lambda>x. x + 1) flux),
     ParentType_eval = (\<lambda>residual storageTerm elemCtx.
                          ([[1, 2, 3, 4], [5, 6, 7, 8]], [[9, 9, 9, 9], [9, 9, 9, 9]]))\<rparr>"

definition exParent :: ParentType where
  "exParent = \<lparr>ParentType_newtonEndStep = (\<lambda>this u uOld. this),
               ParentType_suggestTimeStepSize = (\<lambda>this oldTimeStep. oldTimeStep * 2)\<rparr>"

definition exU :: SolutionFunction where
  "exU = [\<lparr>konti = 100000, transport = 1 / 2\<rparr>, \<lparr>konti = 200, transport = 0\<rparr>]"

definition exUOld :: SolutionFunction where
  "exUOld = [\<lparr>konti = 99000, transport = 1 / 2\<rparr>, \<lparr>konti = 100, transport = 1 / 2000\<rparr>]"

section \<open>The subtraction of double\<close>







section \<open>Properties of the phase inequalities\<close>

lemma exTypeTag_components: "{0..<numComponents exTypeTag} = {0, 1}"
  by (auto simp: exTypeTag_def)

lemma sum_int_split: "i < n \<Longrightarrow> (\<Sum>k = i..<n. (f::int \<Rightarrow> real) k) = f i + (\<Sum>k = i + 1..<(n::int). f k)"
proof -
  assume "i < n"
  then have "{i..<n} = insert i {i + 1..<n}" by auto
  then show ?thesis by simp
qed


lemma phaseNotPresentIneq_loop_sum:
  assumes "Scalar_minus T = (-)"
  shows "phaseNotPresentIneq_loop T fs phaseIdx i a =
           a - (\<Sum>k = i..<numComponents T. moleFraction fs phaseIdx k)"
  using assms
proof (induction T fs phaseIdx i a rule: phaseNotPresentIneq_loop.induct)
  case (1 T fs phaseIdx i a)
  show ?case
  proof (cases "i < numComponents T")
    case True
    have "phaseNotPresentIneq_loop T fs phaseIdx i a =
            phaseNotPresentIneq_loop T fs phaseIdx (i + 1) (a - moleFraction fs phaseIdx i)"
      using True "1.prems" by (subst phaseNotPresentIneq_loop.simps) simp
    also have "\<dots> = (a - moleFraction fs phaseIdx i) -
                     (\<Sum>k = i + 1..<numComponents T. moleFraction fs phaseIdx k)"
      using True "1.prems" "1.IH" [OF True] by simp
    also have "\<dots> = a - (\<Sum>k = i..<numComponents T. moleFraction fs phaseIdx k)"
      using sum_int_split [OF True, of "moleFraction fs phaseIdx"] by linarith
    finally show ?thesis .
  next
    case False
    have "phaseNotPresentIneq_loop T fs phaseIdx i a = a"
      using False by (subst phaseNotPresentIneq_loop.simps) simp
    with False show ?thesis by simp
  qed
qed

lemma ex_minus: "Scalar_minus exTypeTag = (-)"
  by (simp add: exTypeTag_def)
















text \<open>
  C1. \<^verbatim>\<open>phaseNcp_\<close> returns the phase-present inequality of the current fluid state when,
  at the evaluation point, the phase-not-present inequality is strictly greater than the
  phase-present inequality, and the phase-not-present inequality of the current fluid
  state otherwise; when the two values at the evaluation point are equal, it returns the
  phase-not-present inequality.
\<close>

theorem phaseNcp_switch:
  "phaseNcp T elemCtx scvIdx timeIdx phaseIdx =
     (if phaseNotPresentIneq T (fluidState (evalPointVolVars elemCtx scvIdx timeIdx)) phaseIdx
           > phasePresentIneq (fluidState (evalPointVolVars elemCtx scvIdx timeIdx)) phaseIdx
      then phasePresentIneq (fluidState (volVars elemCtx scvIdx timeIdx)) phaseIdx
      else phaseNotPresentIneq T (fluidState (volVars elemCtx scvIdx timeIdx)) phaseIdx)
   \<and> (phaseNotPresentIneq T (fluidState (evalPointVolVars elemCtx scvIdx timeIdx)) phaseIdx
        = phasePresentIneq (fluidState (evalPointVolVars elemCtx scvIdx timeIdx)) phaseIdx
      \<longrightarrow> phaseNcp T elemCtx scvIdx timeIdx phaseIdx
            = phaseNotPresentIneq T (fluidState (volVars elemCtx scvIdx timeIdx)) phaseIdx)"
  by (simp add: phaseNcp_def Let_def)

theorem phaseNcp_switch_witness:
  "phaseNotPresentIneq exTypeTag (fluidState (evalPointVolVars exElemCtx 0 0)) 0
     = phasePresentIneq (fluidState (evalPointVolVars exElemCtx 0 0)) 0
   \<and> phaseNcp exTypeTag exElemCtx 0 0 0
     = phaseNotPresentIneq exTypeTag (fluidState (volVars exElemCtx 0 0)) 0"
proof -
  have tie: "phaseNotPresentIneq exTypeTag (fluidState (evalPointVolVars exElemCtx 0 0)) 0
               = phasePresentIneq (fluidState (evalPointVolVars exElemCtx 0 0)) 0"
    by (simp add: phaseNotPresentIneq_def phaseNotPresentIneq_loop_sum ex_minus exTypeTag_components
                  phasePresentIneq_def exElemCtx_def exFluidState_def)
  with phaseNcp_switch [of exTypeTag exElemCtx 0 0 0] show ?thesis
    by simp
qed

section \<open>Storage, source and flux terms: properties\<close>

lemma length_vadd: "length v = n \<Longrightarrow> length w = n \<Longrightarrow> length (vadd v w) = n"
  by (simp add: vadd_def)

lemma nth_vadd: "j < length v \<Longrightarrow> j < length w \<Longrightarrow> vadd v w ! j = v ! j + w ! j"
  by (simp add: vadd_def)

lemma addPhaseStorage_loop_step:
  "scvIdx < numScv elemCtx \<Longrightarrow>
   addPhaseStorage_loop T elemCtx phaseIdx scvIdx storage =
     addPhaseStorage_loop T elemCtx phaseIdx (scvIdx + 1)
       (vadd storage (phaseStorageOfScv T elemCtx phaseIdx scvIdx))"
  by (subst addPhaseStorage_loop.simps) (simp add: phaseStorageOfScv_def Let_def)

lemma addPhaseStorage_loop_stop:
  "\<not> scvIdx < numScv elemCtx \<Longrightarrow> addPhaseStorage_loop T elemCtx phaseIdx scvIdx storage = storage"
  by (subst addPhaseStorage_loop.simps) simp

lemma addPhaseStorage_loop_sum:
  assumes "0 \<le> scvIdx" and "length storage = numEq T"
    and "\<forall>k. 0 \<le> k \<and> k < numScv elemCtx \<longrightarrow> length (phaseStorageOfScv T elemCtx phaseIdx k) = numEq T"
  shows "length (addPhaseStorage_loop T elemCtx phaseIdx scvIdx storage) = numEq T \<and>
         (\<forall>j<numEq T. addPhaseStorage_loop T elemCtx phaseIdx scvIdx storage ! j =
                storage ! j + (\<Sum>k = scvIdx..<numScv elemCtx. phaseStorageOfScv T elemCtx phaseIdx k ! j))"
  using assms
proof (induction T elemCtx phaseIdx scvIdx storage rule: addPhaseStorage_loop.induct)
  case (1 T elemCtx phaseIdx scvIdx storage)
  show ?case
  proof (cases "scvIdx < numScv elemCtx")
    case True
    let ?tmp = "phaseStorageOfScv T elemCtx phaseIdx scvIdx"
    let ?st = "vadd storage ?tmp"
    have len_tmp: "length ?tmp = numEq T"
      using "1.prems" True by simp
    have len_st: "length ?st = numEq T"
      using "1.prems"(2) len_tmp by (rule length_vadd)
    have step: "addPhaseStorage_loop T elemCtx phaseIdx scvIdx storage =
                  addPhaseStorage_loop T elemCtx phaseIdx (scvIdx + 1) ?st"
      using True by (rule addPhaseStorage_loop_step)
    have IH: "length (addPhaseStorage_loop T elemCtx phaseIdx (scvIdx + 1) ?st) = numEq T \<and>
         (\<forall>j<numEq T. addPhaseStorage_loop T elemCtx phaseIdx (scvIdx + 1) ?st ! j =
                ?st ! j + (\<Sum>k = scvIdx + 1..<numScv elemCtx. phaseStorageOfScv T elemCtx phaseIdx k ! j))"
    proof (rule "1.IH" [OF True])
      show "0 \<le> scvIdx + 1" using "1.prems"(1) by simp
    qed (simp_all add: phaseStorageOfScv_def len_st [unfolded phaseStorageOfScv_def] "1.prems"(3) [unfolded phaseStorageOfScv_def])
    show ?thesis
    proof (intro conjI allI impI)
      show "length (addPhaseStorage_loop T elemCtx phaseIdx scvIdx storage) = numEq T"
        using IH step by simp
    next
      fix j assume j: "j < numEq T"
      have "addPhaseStorage_loop T elemCtx phaseIdx scvIdx storage ! j =
              ?st ! j + (\<Sum>k = scvIdx + 1..<numScv elemCtx. phaseStorageOfScv T elemCtx phaseIdx k ! j)"
        using IH step j by simp
      also have "?st ! j = storage ! j + ?tmp ! j"
        using j "1.prems"(2) len_tmp by (simp add: nth_vadd)
      finally show "addPhaseStorage_loop T elemCtx phaseIdx scvIdx storage ! j =
                storage ! j + (\<Sum>k = scvIdx..<numScv elemCtx. phaseStorageOfScv T elemCtx phaseIdx k ! j)"
        using sum_int_split [OF True, of "\<lambda>k. phaseStorageOfScv T elemCtx phaseIdx k ! j"]
        by linarith
    qed
  next
    case False
    then show ?thesis
      using "1.prems"(2) by (simp add: addPhaseStorage_loop_stop)
  qed
qed


lemma exElemCtx_scvs: "{0..<numScv exElemCtx} = {0, 1}"
  by (auto simp: exElemCtx_def)

lemma ex_phaseStorageOfScv: "phaseStorageOfScv exTypeTag exElemCtx 0 k = [18, 18, 18, 18]"
  by (simp add: phaseStorageOfScv_def exTypeTag_def exElemCtx_def vzero_def vscale_def
                numeral_eq_Suc)

text \<open>
  C10. \<^verbatim>\<open>addPhaseStorage\<close> adds to the vector it is given: every entry after the call is
  the entry before the call plus the sum, over the sub-control volumes, of the mass and
  energy storage of the phase scaled by the extrusion factor and the volume of the
  sub-control volume. \<^verbatim>\<open>computeStorage\<close> and \<^verbatim>\<open>computeFlux\<close> set their vector to zero
  first, so their result does not depend on what the vector held before.
\<close>

theorem addPhaseStorage_accumulates:
  assumes "length storage = numEq T"
    and "\<forall>k. 0 \<le> k \<and> k < numScv elemCtx \<longrightarrow> length (phaseStorageOfScv T elemCtx phaseIdx k) = numEq T"
  shows "length (addPhaseStorage T storage elemCtx phaseIdx) = numEq T
       \<and> (\<forall>j<numEq T. addPhaseStorage T storage elemCtx phaseIdx ! j =
             storage ! j + (\<Sum>k = 0..<numScv elemCtx. phaseStorageOfScv T elemCtx phaseIdx k ! j))
       \<and> computeStorage T storage elemCtx scvIdx timeIdx =
           EnergyResid_computeStorage T
             (MassResid_computeStorage T (vzero (length storage)) (volVars elemCtx scvIdx timeIdx))
             (volVars elemCtx scvIdx timeIdx)
       \<and> (length storage' = length storage \<longrightarrow>
            computeStorage T storage' elemCtx scvIdx timeIdx = computeStorage T storage elemCtx scvIdx timeIdx)
       \<and> computeFlux T flux elemCtx scvfIdx timeIdx =
           MassResid_computeFlux T (vzero (length flux)) elemCtx scvfIdx timeIdx
       \<and> (length flux' = length flux \<longrightarrow>
            computeFlux T flux' elemCtx scvfIdx timeIdx = computeFlux T flux elemCtx scvfIdx timeIdx)"
proof -
  have "length (addPhaseStorage_loop T elemCtx phaseIdx 0 storage) = numEq T \<and>
         (\<forall>j<numEq T. addPhaseStorage_loop T elemCtx phaseIdx 0 storage ! j =
                storage ! j + (\<Sum>k = 0..<numScv elemCtx. phaseStorageOfScv T elemCtx phaseIdx k ! j))"
    using assms by (intro addPhaseStorage_loop_sum) simp_all
  then show ?thesis
    by (simp add: addPhaseStorage_def computeStorage_def computeFlux_def Let_def)
qed

theorem addPhaseStorage_accumulates_witness:
  "length [1, 2, 3, 4 :: real] = numEq exTypeTag
   \<and> length (phaseStorageOfScv exTypeTag exElemCtx 0 0) = numEq exTypeTag
   \<and> length (phaseStorageOfScv exTypeTag exElemCtx 0 1) = numEq exTypeTag
   \<and> addPhaseStorage exTypeTag [1, 2, 3, 4] exElemCtx 0 ! 0 = 37
   \<and> addPhaseStorage exTypeTag [1, 2, 3, 4] exElemCtx 0 ! 3 = 40
   \<and> length [5, 6, 7, 8 :: real] = length [1, 2, 3, 4 :: real]
   \<and> computeStorage exTypeTag [5, 6, 7, 8] exElemCtx 0 0 = computeStorage exTypeTag [1, 2, 3, 4] exElemCtx 0 0
   \<and> computeFlux exTypeTag [5, 6, 7, 8] exElemCtx 0 0 = computeFlux exTypeTag [1, 2, 3, 4] exElemCtx 0 0"
proof -
  have h1: "length [1, 2, 3, 4 :: real] = numEq exTypeTag"
    by (simp add: exTypeTag_def)
  have h2: "\<forall>k. 0 \<le> k \<and> k < numScv exElemCtx \<longrightarrow>
              length (phaseStorageOfScv exTypeTag exElemCtx 0 k) = numEq exTypeTag"
    by (simp add: ex_phaseStorageOfScv) (simp add: exTypeTag_def)
  have n: "numEq exTypeTag = 4"
    by (simp add: exTypeTag_def)
  from addPhaseStorage_accumulates
         [where T = exTypeTag and storage = "[1, 2, 3, 4]" and elemCtx = exElemCtx and phaseIdx = 0
            and storage' = "[5, 6, 7, 8]" and scvIdx = 0 and timeIdx = 0
            and flux = "[1, 2, 3, 4]" and flux' = "[5, 6, 7, 8]" and scvfIdx = 0, OF h1 h2]
  show ?thesis
    using h1 by (simp add: n exElemCtx_scvs ex_phaseStorageOfScv)
qed

text \<open>
  C7. When the source term of the problem and what the mass residual writes have
  \<^verbatim>\<open>numEq\<close> entries, every entry of the result of \<^verbatim>\<open>computeSource\<close> is the entry of the
  source term of the problem plus the entry that the mass residual writes to a vector of
  zeros. The source term of the energy residual takes no part: the result is the same for
  every energy residual, with energy enabled or not.
\<close>

theorem computeSource_problem_plus_mass:
  assumes "length (problem_source T source elemCtx scvIdx timeIdx) = numEq T"
    and "length (MassResid_computeSource T (replicate (numEq T) 0) elemCtx scvIdx timeIdx) = numEq T"
  shows "length (computeSource T source elemCtx scvIdx timeIdx) = numEq T
       \<and> (\<forall>j<numEq T. computeSource T source elemCtx scvIdx timeIdx ! j =
             problem_source T source elemCtx scvIdx timeIdx ! j +
             MassResid_computeSource T (replicate (numEq T) 0) elemCtx scvIdx timeIdx ! j)
       \<and> computeSource T source elemCtx scvIdx timeIdx =
           vadd (problem_source T source elemCtx scvIdx timeIdx)
                (MassResid_computeSource T (vzero (numEq T)) elemCtx scvIdx timeIdx)
       \<and> computeSource (T\<lparr>enableEnergy := b, EnergyResid_computeSource := f,
                           EnergyResid_computeStorage := g, EnergyResid_addPhaseStorage := h\<rparr>)
            source elemCtx scvIdx timeIdx
         = computeSource T source elemCtx scvIdx timeIdx"
proof -
  let ?p = "problem_source T source elemCtx scvIdx timeIdx"
  let ?m = "MassResid_computeSource T (replicate (numEq T) 0) elemCtx scvIdx timeIdx"
  have eq: "computeSource T source elemCtx scvIdx timeIdx = vadd ?p ?m"
    by (simp add: computeSource_def Let_def vzero_def)
  have "length (vadd ?p ?m) = numEq T"
    using assms by (rule length_vadd)
  moreover have "\<forall>j<numEq T. vadd ?p ?m ! j = ?p ! j + ?m ! j"
    using assms by (simp add: nth_vadd)
  ultimately show ?thesis
    using eq by (simp add: computeSource_def Let_def vzero_def)
qed

theorem computeSource_problem_plus_mass_witness:
  "length (problem_source exTypeTag [7, 7, 7, 7] exElemCtx 0 0) = numEq exTypeTag
   \<and> length (MassResid_computeSource exTypeTag (replicate (numEq exTypeTag) 0) exElemCtx 0 0) = numEq exTypeTag
   \<and> problem_source exTypeTag [7, 7, 7, 7] exElemCtx 0 0 = [1, 2, 3, 4]
   \<and> MassResid_computeSource exTypeTag (replicate (numEq exTypeTag) 0) exElemCtx 0 0 = [1, 1, 1, 1]
   \<and> EnergyResid_computeSource exTypeTag (replicate (numEq exTypeTag) 0) exElemCtx 0 = [5, 5, 5, 5]
   \<and> computeSource exTypeTag [7, 7, 7, 7] exElemCtx 0 0 ! 0 = 2
   \<and> computeSource exTypeTag [7, 7, 7, 7] exElemCtx 0 0 ! 1 = 3
   \<and> computeSource exTypeTag [7, 7, 7, 7] exElemCtx 0 0 ! 2 = 4
   \<and> computeSource exTypeTag [7, 7, 7, 7] exElemCtx 0 0 ! 3 = 5"
proof -
  have n: "numEq exTypeTag = 4"
    by (simp add: exTypeTag_def)
  have p: "problem_source exTypeTag [7, 7, 7, 7] exElemCtx 0 0 = [1, 2, 3, 4]"
    by (simp add: exTypeTag_def)
  have ms: "MassResid_computeSource exTypeTag (replicate (numEq exTypeTag) 0) exElemCtx 0 0 = [1, 1, 1, 1]"
    by (simp add: exTypeTag_def numeral_eq_Suc)
  have en: "EnergyResid_computeSource exTypeTag (replicate (numEq exTypeTag) 0) exElemCtx 0 = [5, 5, 5, 5]"
    by (simp add: exTypeTag_def numeral_eq_Suc)
  have h1: "length (problem_source exTypeTag [7, 7, 7, 7] exElemCtx 0 0) = numEq exTypeTag"
    by (simp add: p n)
  have h2: "length (MassResid_computeSource exTypeTag (replicate (numEq exTypeTag) 0) exElemCtx 0 0) = numEq exTypeTag"
    unfolding ms by (simp add: n)
  from computeSource_problem_plus_mass [OF h1 h2]
  have "\<forall>j<numEq exTypeTag. computeSource exTypeTag [7, 7, 7, 7] exElemCtx 0 0 ! j =
             problem_source exTypeTag [7, 7, 7, 7] exElemCtx 0 0 ! j +
             MassResid_computeSource exTypeTag (replicate (numEq exTypeTag) 0) exElemCtx 0 0 ! j"
    by blast
  then have "\<forall>j<4. computeSource exTypeTag [7, 7, 7, 7] exElemCtx 0 0 ! j = [1, 2, 3, 4] ! j + [1, 1, 1, 1] ! j"
    unfolding p ms by (simp only: n)
  then have "computeSource exTypeTag [7, 7, 7, 7] exElemCtx 0 0 ! 0 = 2"
    and "computeSource exTypeTag [7, 7, 7, 7] exElemCtx 0 0 ! 1 = 3"
    and "computeSource exTypeTag [7, 7, 7, 7] exElemCtx 0 0 ! 2 = 4"
    and "computeSource exTypeTag [7, 7, 7, 7] exElemCtx 0 0 ! 3 = 5"
    by simp_all
  with h1 h2 p ms en show ?thesis
    by blast
qed

section \<open>The local residual: properties\<close>

lemma length_ncpRow: "length (ncpRow T elemCtx scvIdx phaseIdx row) = length row"
  by (simp add: ncpRow_def)

lemma nth_ncpRow:
  "j < length row \<Longrightarrow>
   ncpRow T elemCtx scvIdx phaseIdx row ! j =
     (if phase0NcpIdx T + phaseIdx \<le> int j \<and> int j < phase0NcpIdx T + numPhases T
      then phaseNcp T elemCtx scvIdx 0 (int j - phase0NcpIdx T)
      else row ! j)"
  by (simp add: ncpRow_def)

lemma ncpRow_done: "numPhases T \<le> phaseIdx \<Longrightarrow> ncpRow T elemCtx scvIdx phaseIdx row = row"
  by (rule nth_equalityI) (simp_all add: length_ncpRow nth_ncpRow)

lemma ncpRow_step:
  assumes "0 \<le> phase0NcpIdx T + phaseIdx" and "phaseIdx < numPhases T"
    and "phase0NcpIdx T + numPhases T \<le> int (length row)"
  shows "ncpRow T elemCtx scvIdx (phaseIdx + 1)
           (row[nat (phase0NcpIdx T + phaseIdx) := phaseNcp T elemCtx scvIdx 0 phaseIdx]) =
         ncpRow T elemCtx scvIdx phaseIdx row"
proof (rule nth_equalityI)
  show "length (ncpRow T elemCtx scvIdx (phaseIdx + 1)
           (row[nat (phase0NcpIdx T + phaseIdx) := phaseNcp T elemCtx scvIdx 0 phaseIdx])) =
        length (ncpRow T elemCtx scvIdx phaseIdx row)"
    by (simp add: length_ncpRow)
next
  fix j
  assume "j < length (ncpRow T elemCtx scvIdx (phaseIdx + 1)
           (row[nat (phase0NcpIdx T + phaseIdx) := phaseNcp T elemCtx scvIdx 0 phaseIdx]))"
  then have j: "j < length row"
    by (simp add: length_ncpRow)
  show "ncpRow T elemCtx scvIdx (phaseIdx + 1)
           (row[nat (phase0NcpIdx T + phaseIdx) := phaseNcp T elemCtx scvIdx 0 phaseIdx]) ! j =
        ncpRow T elemCtx scvIdx phaseIdx row ! j"
  proof (cases "int j = phase0NcpIdx T + phaseIdx")
    case True
    then have "j = nat (phase0NcpIdx T + phaseIdx)" by simp
    with True j assms show ?thesis
      by (simp add: nth_ncpRow)
  next
    case False
    then have "j \<noteq> nat (phase0NcpIdx T + phaseIdx)"
      using assms(1) by auto
    with False j show ?thesis
      by (auto simp add: nth_ncpRow)
  qed
qed

lemma setEntry_Some:
  assumes "0 \<le> scvIdx" and "scvIdx < int (length residual)"
    and "0 \<le> eqIdx" and "eqIdx < int (length (residual ! nat scvIdx))"
  shows "setEntry residual scvIdx eqIdx v =
           Some (residual[nat scvIdx := (residual ! nat scvIdx)[nat eqIdx := v]])"
  using assms by (simp add: setEntry_def)

lemma eval_phaseLoop_row:
  assumes "0 \<le> scvIdx" and "scvIdx < int (length residual)"
    and "0 \<le> phase0NcpIdx T" and "0 \<le> phaseIdx"
    and "phase0NcpIdx T + numPhases T \<le> int (length (residual ! nat scvIdx))"
  shows "eval_phaseLoop T elemCtx scvIdx phaseIdx residual =
           Some (residual[nat scvIdx := ncpRow T elemCtx scvIdx phaseIdx (residual ! nat scvIdx)])"
  using assms
proof (induction T elemCtx scvIdx phaseIdx residual rule: eval_phaseLoop.induct)
  case (1 T elemCtx scvIdx phaseIdx residual)
  let ?s = "nat scvIdx"
  let ?row = "residual ! ?s"
  show ?case
  proof (cases "phaseIdx < numPhases T")
    case True
    let ?k = "nat (phase0NcpIdx T + phaseIdx)"
    let ?v = "phaseNcp T elemCtx scvIdx 0 phaseIdx"
    let ?r = "residual[?s := ?row[?k := ?v]]"
    have s: "?s < length residual"
      using "1.prems"(1,2) by simp
    have set: "setEntry residual scvIdx (phase0NcpIdx T + phaseIdx) ?v = Some ?r"
      using "1.prems" True by (intro setEntry_Some) simp_all
    have row': "?r ! ?s = ?row[?k := ?v]"
      using s by simp
    have "eval_phaseLoop T elemCtx scvIdx (phaseIdx + 1) ?r =
            Some (?r[?s := ncpRow T elemCtx scvIdx (phaseIdx + 1) (?r ! ?s)])"
      using True set "1.prems" by (intro "1.IH") (simp_all add: row')
    also have "?r[?s := ncpRow T elemCtx scvIdx (phaseIdx + 1) (?r ! ?s)] =
                 residual[?s := ncpRow T elemCtx scvIdx (phaseIdx + 1) (?row[?k := ?v])]"
      by (simp add: row')
    also have "ncpRow T elemCtx scvIdx (phaseIdx + 1) (?row[?k := ?v]) =
                 ncpRow T elemCtx scvIdx phaseIdx ?row"
      using "1.prems" True by (intro ncpRow_step) simp_all
    finally show ?thesis
      using True set by (subst eval_phaseLoop.simps) simp
  next
    case False
    then show ?thesis
      by (subst eval_phaseLoop.simps) (simp add: ncpRow_done)
  qed
qed


lemma length_ncpRows: "length (ncpRows T elemCtx n scvIdx residual) = length residual"
  by (simp add: ncpRows_def)

lemma nth_ncpRows:
  "s < length residual \<Longrightarrow>
   ncpRows T elemCtx n scvIdx residual ! s =
     (if scvIdx \<le> int s \<and> int s < n
      then ncpRow T elemCtx (int s) 0 (residual ! s)
      else residual ! s)"
  by (simp add: ncpRows_def)

lemma ncpRows_done: "n \<le> scvIdx \<Longrightarrow> ncpRows T elemCtx n scvIdx residual = residual"
  by (rule nth_equalityI) (auto simp add: length_ncpRows nth_ncpRows)

lemma ncpRows_step:
  assumes "0 \<le> scvIdx" and "scvIdx < n" and "n \<le> int (length residual)"
  shows "ncpRows T elemCtx n (scvIdx + 1)
           (residual[nat scvIdx := ncpRow T elemCtx scvIdx 0 (residual ! nat scvIdx)]) =
         ncpRows T elemCtx n scvIdx residual"
proof (rule nth_equalityI)
  show "length (ncpRows T elemCtx n (scvIdx + 1)
           (residual[nat scvIdx := ncpRow T elemCtx scvIdx 0 (residual ! nat scvIdx)])) =
        length (ncpRows T elemCtx n scvIdx residual)"
    by (simp add: length_ncpRows)
next
  fix s
  assume "s < length (ncpRows T elemCtx n (scvIdx + 1)
           (residual[nat scvIdx := ncpRow T elemCtx scvIdx 0 (residual ! nat scvIdx)]))"
  then have s: "s < length residual"
    by (simp add: length_ncpRows)
  show "ncpRows T elemCtx n (scvIdx + 1)
           (residual[nat scvIdx := ncpRow T elemCtx scvIdx 0 (residual ! nat scvIdx)]) ! s =
        ncpRows T elemCtx n scvIdx residual ! s"
  proof (cases "int s = scvIdx")
    case True
    then have "s = nat scvIdx" by simp
    with True s assms show ?thesis
      by (simp add: nth_ncpRows)
  next
    case False
    then have "s \<noteq> nat scvIdx"
      using assms(1) by auto
    with False s show ?thesis
      by (auto simp add: nth_ncpRows)
  qed
qed

lemma eval_scvLoop_rows:
  assumes "0 \<le> scvIdx" and "n \<le> int (length residual)" and "0 \<le> phase0NcpIdx T"
    and "\<forall>s. scvIdx \<le> int s \<and> int s < n \<longrightarrow>
             phase0NcpIdx T + numPhases T \<le> int (length (residual ! s))"
  shows "eval_scvLoop T elemCtx n scvIdx residual = Some (ncpRows T elemCtx n scvIdx residual)"
  using assms
proof (induction T elemCtx n scvIdx residual rule: eval_scvLoop.induct)
  case (1 T elemCtx n scvIdx residual)
  let ?s = "nat scvIdx"
  show ?case
  proof (cases "scvIdx < n")
    case True
    let ?r = "residual[?s := ncpRow T elemCtx scvIdx 0 (residual ! ?s)]"
    have s: "int ?s = scvIdx"
      using "1.prems"(1) by simp
    have len: "phase0NcpIdx T + numPhases T \<le> int (length (residual ! ?s))"
      using "1.prems"(4) True s by simp
    have inner: "eval_phaseLoop T elemCtx scvIdx 0 residual = Some ?r"
      using "1.prems"(1,2,3) True len by (intro eval_phaseLoop_row) simp_all
    have rest: "\<forall>s. scvIdx + 1 \<le> int s \<and> int s < n \<longrightarrow>
                  phase0NcpIdx T + numPhases T \<le> int (length (?r ! s))"
    proof (intro allI impI)
      fix s
      assume a: "scvIdx + 1 \<le> int s \<and> int s < n"
      then have "s \<noteq> ?s"
        using "1.prems"(1) by auto
      then have "?r ! s = residual ! s"
        by simp
      with a "1.prems"(4) show "phase0NcpIdx T + numPhases T \<le> int (length (?r ! s))"
        by simp
    qed
    have "eval_scvLoop T elemCtx n (scvIdx + 1) ?r = Some (ncpRows T elemCtx n (scvIdx + 1) ?r)"
      using True inner "1.prems"(1,2,3) rest by (intro "1.IH") simp_all
    also have "ncpRows T elemCtx n (scvIdx + 1) ?r = ncpRows T elemCtx n scvIdx residual"
      using "1.prems"(1) True "1.prems"(2) by (rule ncpRows_step)
    finally show ?thesis
      using True inner by (subst eval_scvLoop.simps) simp
  next
    case False
    then show ?thesis
      by (subst eval_scvLoop.simps) (simp add: ncpRows_done)
  qed
qed

text \<open>
  C2. Let the base class return \<open>res0\<close> and \<open>st0\<close>, with a block for each sub-control
  volume and the NCP rows inside each of these blocks. Then \<^verbatim>\<open>eval\<close> returns; in the
  residual, the entry \<^verbatim>\<open>phase0NcpIdx + phaseIdx\<close> of the block of each sub-control volume
  is \<^verbatim>\<open>phaseNcp_(elemCtx, scvIdx, 0, phaseIdx)\<close> for each phase, every other entry is as
  the base class left it, and the storage term is the one of the base class.
\<close>

theorem eval_overwrites_ncp_rows:
  assumes "ParentType_eval T residual storageTerm elemCtx = (res0, st0)"
    and "0 \<le> phase0NcpIdx T"
    and "numScv elemCtx \<le> int (length res0)"
    and "\<forall>s. int s < numScv elemCtx \<longrightarrow> phase0NcpIdx T + numPhases T \<le> int (length (res0 ! s))"
  shows "\<exists>res. eval T residual storageTerm elemCtx = Some (res, st0)
       \<and> length res = length res0
       \<and> (\<forall>s<length res0. length (res ! s) = length (res0 ! s))
       \<and> (\<forall>scvIdx phaseIdx. 0 \<le> scvIdx \<and> scvIdx < numScv elemCtx \<and> 0 \<le> phaseIdx \<and> phaseIdx < numPhases T \<longrightarrow>
             res ! nat scvIdx ! nat (phase0NcpIdx T + phaseIdx) = phaseNcp T elemCtx scvIdx 0 phaseIdx)
       \<and> (\<forall>s j. s < length res0 \<and> j < length (res0 ! s) \<and>
                 \<not> (int s < numScv elemCtx \<and> phase0NcpIdx T \<le> int j \<and> int j < phase0NcpIdx T + numPhases T) \<longrightarrow>
             res ! s ! j = res0 ! s ! j)"
proof -
  let ?res = "ncpRows T elemCtx (numScv elemCtx) 0 res0"
  have loop: "eval_scvLoop T elemCtx (numScv elemCtx) 0 res0 = Some ?res"
    using assms(2,3,4) by (intro eval_scvLoop_rows) simp_all
  have ev: "eval T residual storageTerm elemCtx = Some (?res, st0)"
    using assms(1) loop by (simp add: eval_def)
  have len: "length ?res = length res0"
    by (rule length_ncpRows)
  have lens: "\<forall>s<length res0. length (?res ! s) = length (res0 ! s)"
    by (simp add: nth_ncpRows length_ncpRow)
  have ncp: "?res ! nat scvIdx ! nat (phase0NcpIdx T + phaseIdx) = phaseNcp T elemCtx scvIdx 0 phaseIdx"
    if a: "0 \<le> scvIdx \<and> scvIdx < numScv elemCtx \<and> 0 \<le> phaseIdx \<and> phaseIdx < numPhases T"
    for scvIdx phaseIdx
  proof -
    have s: "nat scvIdx < length res0" "int (nat scvIdx) = scvIdx"
      using a assms(3) by linarith+
    have "phase0NcpIdx T + numPhases T \<le> int (length (res0 ! nat scvIdx))"
      using assms(4) a s(2) by simp
    then have j: "nat (phase0NcpIdx T + phaseIdx) < length (res0 ! nat scvIdx)"
      using a assms(2) by linarith
    have "?res ! nat scvIdx = ncpRow T elemCtx scvIdx 0 (res0 ! nat scvIdx)"
      using s a by (simp add: nth_ncpRows)
    then show ?thesis
      using j a assms(2) by (simp add: nth_ncpRow)
  qed
  have frame: "?res ! s ! j = res0 ! s ! j"
    if a: "s < length res0 \<and> j < length (res0 ! s) \<and>
           \<not> (int s < numScv elemCtx \<and> phase0NcpIdx T \<le> int j \<and> int j < phase0NcpIdx T + numPhases T)"
    for s j
    using a by (auto simp add: nth_ncpRows nth_ncpRow)
  show ?thesis
    using ev len lens ncp frame by blast
qed

lemma ex_ParentType_eval:
  "ParentType_eval exTypeTag r s exElemCtx = ([[1, 2, 3, 4], [5, 6, 7, 8]], [[9, 9, 9, 9], [9, 9, 9, 9]])"
  by (simp add: exTypeTag_def)

lemma ex_phaseNcp:
  "phaseNcp exTypeTag exElemCtx 1 0 0 = 0 \<and> phaseNcp exTypeTag exElemCtx 1 0 1 = 3 / 4"
  by (simp add: phaseNcp_def phaseNotPresentIneq_def phaseNotPresentIneq_loop_sum ex_minus
                exTypeTag_components phasePresentIneq_def exElemCtx_def exFluidState_def)

theorem eval_overwrites_ncp_rows_witness:
  "ParentType_eval exTypeTag [] [] exElemCtx = ([[1, 2, 3, 4], [5, 6, 7, 8]], [[9, 9, 9, 9], [9, 9, 9, 9]])
   \<and> 0 \<le> phase0NcpIdx exTypeTag
   \<and> numScv exElemCtx \<le> int (length [[1, 2, 3, 4], [5, 6, 7, 8 :: real]])
   \<and> phase0NcpIdx exTypeTag + numPhases exTypeTag \<le> int (length ([[1, 2, 3, 4], [5, 6, 7, 8 :: real]] ! 0))
   \<and> phase0NcpIdx exTypeTag + numPhases exTypeTag \<le> int (length ([[1, 2, 3, 4], [5, 6, 7, 8 :: real]] ! 1))
   \<and> (\<exists>res. eval exTypeTag [] [] exElemCtx = Some (res, [[9, 9, 9, 9], [9, 9, 9, 9]])
         \<and> res ! 1 ! 2 = 0 \<and> res ! 1 ! 3 = 3 / 4 \<and> res ! 1 ! 0 = 5 \<and> res ! 1 ! 1 = 6)"
proof -
  have h1: "ParentType_eval exTypeTag [] [] exElemCtx =
              ([[1, 2, 3, 4], [5, 6, 7, 8]], [[9, 9, 9, 9], [9, 9, 9, 9]])"
    by (rule ex_ParentType_eval)
  have h2: "0 \<le> phase0NcpIdx exTypeTag"
    by (simp add: exTypeTag_def)
  have h3: "numScv exElemCtx \<le> int (length [[1, 2, 3, 4], [5, 6, 7, 8 :: real]])"
    by (simp add: exElemCtx_def)
  have h4: "\<forall>s. int s < numScv exElemCtx \<longrightarrow>
         phase0NcpIdx exTypeTag + numPhases exTypeTag \<le> int (length ([[1, 2, 3, 4], [5, 6, 7, 8 :: real]] ! s))"
    by (auto simp: exElemCtx_def exTypeTag_def dest!: less_2_cases)
  from eval_overwrites_ncp_rows [OF h1 h2 h3 h4]
  obtain res where ev: "eval exTypeTag [] [] exElemCtx = Some (res, [[9, 9, 9, 9], [9, 9, 9, 9]])"
    and ncp: "\<forall>scvIdx phaseIdx. 0 \<le> scvIdx \<and> scvIdx < numScv exElemCtx \<and> 0 \<le> phaseIdx \<and> phaseIdx < numPhases exTypeTag \<longrightarrow>
             res ! nat scvIdx ! nat (phase0NcpIdx exTypeTag + phaseIdx) = phaseNcp exTypeTag exElemCtx scvIdx 0 phaseIdx"
    and frame: "\<forall>s j. s < length [[1, 2, 3, 4], [5, 6, 7, 8 :: real]] \<and> j < length ([[1, 2, 3, 4], [5, 6, 7, 8 :: real]] ! s) \<and>
                 \<not> (int s < numScv exElemCtx \<and> phase0NcpIdx exTypeTag \<le> int j \<and> int j < phase0NcpIdx exTypeTag + numPhases exTypeTag) \<longrightarrow>
             res ! s ! j = [[1, 2, 3, 4], [5, 6, 7, 8]] ! s ! j"
    by blast
  have n: "numScv exElemCtx = 2" "numPhases exTypeTag = 2" "phase0NcpIdx exTypeTag = 2"
    by (simp_all add: exElemCtx_def exTypeTag_def)
  have "res ! 1 ! 2 = 0"
    using ncp [rule_format, of 1 0] by (simp add: n ex_phaseNcp)
  moreover have "res ! 1 ! 3 = 3 / 4"
    using ncp [rule_format, of 1 1] by (simp add: n ex_phaseNcp)
  moreover have "res ! 1 ! 0 = 5"
    using frame [rule_format, of 1 0] by (simp add: n)
  moreover have "res ! 1 ! 1 = 6"
    using frame [rule_format, of 1 1] by (simp add: n)
  moreover have "phase0NcpIdx exTypeTag + numPhases exTypeTag \<le> int (length ([[1, 2, 3, 4], [5, 6, 7, 8 :: real]] ! 0))"
    and "phase0NcpIdx exTypeTag + numPhases exTypeTag \<le> int (length ([[1, 2, 3, 4], [5, 6, 7, 8 :: real]] ! 1))"
    by (simp_all add: n)
  ultimately show ?thesis
    using h1 h2 h3 ev by blast
qed

section \<open>The Newton controller: properties\<close>

text \<open>
  C4. \<^verbatim>\<open>newtonConverged\<close> returns true exactly when \<^verbatim>\<open>relDefect_\<close> is at most the
  tolerance, in particular when the two are equal; it leaves the controller as it is, and
  a second call returns what the first one did.
\<close>

theorem newtonConverged_le_tolerance:
  "fst (newtonConverged this) = (relDefect this \<le> tolerance this)
   \<and> fst (newtonConverged (this\<lparr>relDefect := tolerance this\<rparr>))
   \<and> snd (newtonConverged this) = this
   \<and> fst (newtonConverged (snd (newtonConverged this))) = fst (newtonConverged this)"
  by (simp add: newtonConverged_def)

text \<open>
  C5. \<^verbatim>\<open>suggestTimeStepSize\<close> returns the smaller of \<^verbatim>\<open>maxTimeStepSize_\<close> and the time
  step size that the base class suggests: the result is never above \<^verbatim>\<open>maxTimeStepSize_\<close>,
  and it is the suggestion of the base class whenever that is below \<^verbatim>\<open>maxTimeStepSize_\<close>.
\<close>

theorem suggestTimeStepSize_min:
  "suggestTimeStepSize P this oldTimeStep =
     min (maxTimeStepSize this) (ParentType_suggestTimeStepSize P this oldTimeStep)
   \<and> suggestTimeStepSize P this oldTimeStep \<le> maxTimeStepSize this
   \<and> (ParentType_suggestTimeStepSize P this oldTimeStep < maxTimeStepSize this \<longrightarrow>
        suggestTimeStepSize P this oldTimeStep = ParentType_suggestTimeStepSize P this oldTimeStep)"
  by (simp add: suggestTimeStepSize_def std_min_def min_def)

theorem suggestTimeStepSize_min_witness:
  "ParentType_suggestTimeStepSize exParent (LensOnePTwoCNewtonController_ctor 10) 3
     < maxTimeStepSize (LensOnePTwoCNewtonController_ctor 10)
   \<and> suggestTimeStepSize exParent (LensOnePTwoCNewtonController_ctor 10) 3 = 6
   \<and> suggestTimeStepSize exParent (LensOnePTwoCNewtonController_ctor 10) 8 = 10"
  using suggestTimeStepSize_min [of exParent "LensOnePTwoCNewtonController_ctor 10" 3]
        suggestTimeStepSize_min [of exParent "LensOnePTwoCNewtonController_ctor 10" 8]
  by (simp add: exParent_def LensOnePTwoCNewtonController_ctor_def)

lemma std_max_eq: "std_max a b = max a b"
  by (simp add: std_max_def max_def)

lemma newtonEndStep_body_max:
  "newtonEndStep_body p q rd = max (max rd (kontiDefect p q)) (transportDefect p q)"
  by (simp add: newtonEndStep_body_def Let_def std_max_eq kontiDefect_def transportDefect_def
                max.assoc)

lemma kontiDefect_nonneg: "0 \<le> kontiDefect p q"
  by (simp add: kontiDefect_def)

lemma transportDefect_nonneg: "0 \<le> transportDefect p q"
  by (simp add: transportDefect_def)

lemma foldl_max_Max:
  "foldl (\<lambda>r k. max (max r (a k)) (b k)) rd xs = Max (insert (rd::real) (a ` set xs \<union> b ` set xs))"
proof (induction xs arbitrary: rd)
  case Nil
  then show ?case by simp
next
  case (Cons x xs)
  let ?S = "a ` set xs \<union> b ` set xs"
  have fin: "finite ?S" by simp
  have "foldl (\<lambda>r k. max (max r (a k)) (b k)) rd (x # xs) = Max (insert (max (max rd (a x)) (b x)) ?S)"
    using Cons.IH by simp
  also have "\<dots> = Max (insert rd (insert (a x) (insert (b x) ?S)))"
    using fin by (cases "?S = {}") (simp_all add: max.assoc)
  also have "insert rd (insert (a x) (insert (b x) ?S)) = insert rd (a ` set (x # xs) \<union> b ` set (x # xs))"
    by auto
  finally show ?case .
qed

lemma unat_succ32: "unat i < n \<Longrightarrow> n < 2 ^ 32 \<Longrightarrow> unat (i + 1 :: 32 word) = Suc (unat i)"
  by (simp add: unat_add_lem [THEN iffD1])

lemma newtonEndStep_loop_foldl:
  assumes "length u < 2 ^ 32" and "length u \<le> length uOld"
  shows "newtonEndStep_loop i u uOld rd =
           Some (foldl (\<lambda>r k. newtonEndStep_body (u ! k) (uOld ! k) r) rd [unat i..<length u])"
proof (induction "length u - unat i" arbitrary: i rd)
  case 0
  then have "\<not> unat i < length u" by simp
  then show ?case
    by (subst newtonEndStep_loop.simps) simp
next
  case (Suc n)
  then have lt: "unat i < length u" by simp
  have nxt: "unat (i + 1) = Suc (unat i)"
    using lt assms(1) by (rule unat_succ32)
  have "n = length u - unat (i + 1)"
    using Suc.hyps(2) nxt by simp
  then have IH: "newtonEndStep_loop (i + 1) u uOld rd' =
           Some (foldl (\<lambda>r k. newtonEndStep_body (u ! k) (uOld ! k) r) rd' [unat (i + 1)..<length u])" for rd'
    by (rule Suc.hyps(1))
  have "[unat i..<length u] = unat i # [Suc (unat i)..<length u]"
    using lt by (simp add: upt_conv_Cons)
  then show ?case
    using lt assms(2) IH nxt by (subst newtonEndStep_loop.simps) simp
qed


lemma set_defects:
  "set (defects u uOld) =
     (\<lambda>k. kontiDefect (u ! k) (uOld ! k)) ` set [0..<length u] \<union>
     (\<lambda>k. transportDefect (u ! k) (uOld ! k)) ` set [0..<length u]"
  by (auto simp: defects_def)

lemma newtonEndStep_loop_Max:
  assumes "length u < 2 ^ 32" and "length u \<le> length uOld"
  shows "newtonEndStep_loop 0 u uOld rd = Some (Max (insert rd (set (defects u uOld))))"
proof -
  have "newtonEndStep_loop 0 u uOld rd =
          Some (foldl (\<lambda>r k. newtonEndStep_body (u ! k) (uOld ! k) r) rd [unat (0 :: 32 word)..<length u])"
    using assms by (rule newtonEndStep_loop_foldl)
  also have "foldl (\<lambda>r k. newtonEndStep_body (u ! k) (uOld ! k) r) rd [unat (0 :: 32 word)..<length u] =
               foldl (\<lambda>r k. max (max r (kontiDefect (u ! k) (uOld ! k))) (transportDefect (u ! k) (uOld ! k)))
                     rd [0..<length u]"
    by (simp add: newtonEndStep_body_max)
  also have "\<dots> = Max (insert rd (set (defects u uOld)))"
    unfolding set_defects by (rule foldl_max_Max)
  finally show ?thesis .
qed

lemma newtonEndStep_Some:
  assumes "length u < 2 ^ 32" and "length u \<le> length uOld"
  shows "newtonEndStep P this u uOld =
           Some ((ParentType_newtonEndStep P this u uOld)\<lparr>relDefect := Max (insert 0 (set (defects u uOld)))\<rparr>)"
  using newtonEndStep_loop_Max [OF assms, of 0]
  by (simp add: newtonEndStep_def Let_def)

lemma defects_nonneg: "d \<in> set (defects u uOld) \<Longrightarrow> 0 \<le> d"
  by (auto simp: set_defects kontiDefect_nonneg transportDefect_nonneg)

lemma Max_insert0_defects: "u \<noteq> [] \<Longrightarrow> Max (insert 0 (set (defects u uOld))) = Max (set (defects u uOld))"
proof -
  assume "u \<noteq> []"
  then have "0 < length u" by simp
  then have ne: "set (defects u uOld) \<noteq> {}"
    by (auto simp: defects_def)
  then have "defects u uOld \<noteq> []" by simp
  then have "hd (defects u uOld) \<in> set (defects u uOld)" by simp
  then obtain d where d: "d \<in> set (defects u uOld)" ..
  have "0 \<le> d" using d by (rule defects_nonneg)
  also have "d \<le> Max (set (defects u uOld))" using d by simp
  finally show ?thesis using ne by (simp add: max_def)
qed

lemma newtonEndStep_body_ge: "rd \<le> newtonEndStep_body p q rd"
  by (simp add: newtonEndStep_body_max max.coboundedI1)

lemma newtonEndStep_loop_ge: "newtonEndStep_loop i u uOld rd = Some y \<Longrightarrow> rd \<le> y"
proof (rule newtonEndStep_loop.raw_induct [where P = "\<lambda>i u uOld rd y. rd \<le> y"])
  fix f :: "32 word \<Rightarrow> SolutionFunction \<Rightarrow> SolutionFunction \<Rightarrow> Scalar \<Rightarrow> Scalar option"
  fix i u uOld rd y
  assume IH: "\<And>i u uOld rd y. f i u uOld rd = Some y \<Longrightarrow> rd \<le> y"
  assume res: "(if unat i < length u
                then if unat i < length uOld
                     then f (i + 1) u uOld (newtonEndStep_body (u ! unat i) (uOld ! unat i) rd)
                     else None
                else Some rd) = Some y"
  show "rd \<le> y"
  proof (cases "unat i < length u")
    case True
    with res have "f (i + 1) u uOld (newtonEndStep_body (u ! unat i) (uOld ! unat i) rd) = Some y"
      by (simp split: if_splits)
    then have "newtonEndStep_body (u ! unat i) (uOld ! unat i) rd \<le> y"
      by (rule IH)
    with newtonEndStep_body_ge [of rd "u ! unat i" "uOld ! unat i"] show ?thesis
      by simp
  next
    case False
    with res show ?thesis by simp
  qed
qed

lemma newtonEndStep_nonneg: "newtonEndStep P this u uOld = Some this' \<Longrightarrow> 0 \<le> relDefect this'"
  by (auto simp: newtonEndStep_def Let_def split: option.splits dest: newtonEndStep_loop_ge)


lemma ex_defects: "defects exU exUOld = [1 / 100, 0, 1 / 10, 1 / 2]"
  by (simp add: defects_def exU_def exUOld_def kontiDefect_def transportDefect_def)

lemma ex_newtonEndStep:
  "newtonEndStep exParent (LensOnePTwoCNewtonController_ctor 10) exU exUOld =
     Some ((LensOnePTwoCNewtonController_ctor 10)\<lparr>relDefect := 1 / 2\<rparr>)"
proof -
  have "length exU < 2 ^ 32" and "length exU \<le> length exUOld"
    by (simp_all add: exU_def exUOld_def)
  then show ?thesis
    by (simp add: newtonEndStep_Some ex_defects exParent_def)
qed

text \<open>
  C3. When \<^verbatim>\<open>u\<close> has fewer than \<open>2 ^ 32\<close> entries and \<^verbatim>\<open>uOld\<close> as many as \<^verbatim>\<open>u\<close>,
  \<^verbatim>\<open>newtonEndStep\<close> returns, and \<^verbatim>\<open>relDefect_\<close> is then the largest of 0 and, over all
  degrees of freedom, the two relative differences of \<^verbatim>\<open>u\<close> and \<^verbatim>\<open>uOld\<close> with the norms
  floored at 1e3 and 1e-3; for a non-empty \<^verbatim>\<open>u\<close> this is the largest of the relative
  differences. The value held by \<^verbatim>\<open>relDefect_\<close> before the call does not enter.
\<close>

theorem newtonEndStep_relDefect:
  assumes "length u < 2 ^ 32" and "length uOld = length u"
  shows "newtonEndStep P this u uOld =
           Some ((ParentType_newtonEndStep P this u uOld)\<lparr>relDefect := Max (set (0 # defects u uOld))\<rparr>)
       \<and> (u \<noteq> [] \<longrightarrow> Max (set (0 # defects u uOld)) = Max (set (defects u uOld)))
       \<and> (\<exists>this'. newtonEndStep P (this\<lparr>relDefect := r\<rparr>) u uOld = Some this'
                   \<and> relDefect this' = Max (set (0 # defects u uOld)))"
  using assms by (simp add: newtonEndStep_Some Max_insert0_defects)

theorem newtonEndStep_relDefect_witness:
  "length exU < 2 ^ 32 \<and> length exUOld = length exU \<and> exU \<noteq> []
   \<and> newtonEndStep exParent (LensOnePTwoCNewtonController_ctor 10) exU exUOld =
       Some ((LensOnePTwoCNewtonController_ctor 10)\<lparr>relDefect := 1 / 2\<rparr>)
   \<and> Max (set (defects exU exUOld)) = 1 / 2"
proof -
  have h1: "length exU < 2 ^ 32" and h2: "length exUOld = length exU" and h3: "exU \<noteq> []"
    by (simp_all add: exU_def exUOld_def)
  from newtonEndStep_relDefect [OF h1 h2, of exParent "LensOnePTwoCNewtonController_ctor 10" 0]
  show ?thesis
    using h1 h2 h3 by (simp add: ex_defects exParent_def)
qed

text \<open>
  C8. \<^verbatim>\<open>relDefect_\<close> is not negative: the constructor sets it to 1e100, every call of
  \<^verbatim>\<open>newtonEndStep\<close> that returns leaves it not negative (and the call returns when \<^verbatim>\<open>u\<close>
  has fewer than \<open>2 ^ 32\<close> entries and \<^verbatim>\<open>uOld\<close> at least as many), so it is not negative
  in every state that the constructor and the methods of the controller lead to.
\<close>

theorem relDefect_nonneg:
  "relDefect (LensOnePTwoCNewtonController_ctor m) = 10 ^ 100
   \<and> 0 \<le> relDefect (LensOnePTwoCNewtonController_ctor m)
   \<and> (newtonEndStep P this u uOld = Some this' \<longrightarrow> 0 \<le> relDefect this')
   \<and> (length u < 2 ^ 32 \<and> length u \<le> length uOld \<longrightarrow>
        (\<exists>this''. newtonEndStep P this u uOld = Some this'' \<and> 0 \<le> relDefect this''))
   \<and> (reachable P this \<longrightarrow> 0 \<le> relDefect this)"
proof -
  have ctor: "relDefect (LensOnePTwoCNewtonController_ctor m) = 10 ^ 100" for m
    by (simp add: LensOnePTwoCNewtonController_ctor_def)
  have step: "0 \<le> relDefect this'" if "newtonEndStep P this u uOld = Some this'" for this u uOld this'
    using that by (rule newtonEndStep_nonneg)
  have total: "\<exists>this''. newtonEndStep P this u uOld = Some this'' \<and> 0 \<le> relDefect this''"
    if "length u < 2 ^ 32" and "length u \<le> length uOld"
    using newtonEndStep_Some [OF that, of P this] step by blast
  have inv: "0 \<le> relDefect this" if "reachable P this"
    using that
  proof induction
    case (constructed IPP_MaxTimeStepSize)
    show ?case by (simp add: ctor)
  next
    case (endStep this u uOld this')
    from endStep.hyps(2) show ?case by (rule step)
  next
    case (converged this)
    then show ?case by (simp add: newtonConverged_def)
  qed
  show ?thesis
    using step total inv by (simp add: ctor)
qed

theorem relDefect_nonneg_witness:
  "newtonEndStep exParent (LensOnePTwoCNewtonController_ctor 10) exU exUOld =
     Some ((LensOnePTwoCNewtonController_ctor 10)\<lparr>relDefect := 1 / 2\<rparr>)
   \<and> length exU < 2 ^ 32 \<and> length exU \<le> length exUOld
   \<and> reachable exParent ((LensOnePTwoCNewtonController_ctor 10)\<lparr>relDefect := 1 / 2\<rparr>)
   \<and> 0 \<le> relDefect ((LensOnePTwoCNewtonController_ctor 10)\<lparr>relDefect := 1 / 2\<rparr>)"
proof -
  have r: "reachable exParent ((LensOnePTwoCNewtonController_ctor 10)\<lparr>relDefect := 1 / 2\<rparr>)"
    using reachable.constructed ex_newtonEndStep by (rule reachable.endStep)
  have l: "length exU < 2 ^ 32 \<and> length exU \<le> length exUOld"
    by (simp add: exU_def exUOld_def)
  from relDefect_nonneg [of 10 exParent "(LensOnePTwoCNewtonController_ctor 10)\<lparr>relDefect := 1 / 2\<rparr>"
                            exU exUOld "(LensOnePTwoCNewtonController_ctor 10)\<lparr>relDefect := 1 / 2\<rparr>"]
  show ?thesis
    using r l ex_newtonEndStep by simp
qed

lemma defects_same: "d \<in> set (defects u u) \<Longrightarrow> d = 0"
  by (auto simp: set_defects kontiDefect_def transportDefect_def)

lemma Max_defects_same: "Max (insert 0 (set (defects u u))) = 0"
proof -
  have "set (defects u u) \<subseteq> {0}"
    using defects_same by blast
  then have eq: "insert 0 (set (defects u u)) = {0}"
    by blast
  show ?thesis
    unfolding eq by simp
qed

text \<open>
  C9. For an empty \<^verbatim>\<open>u\<close>, \<^verbatim>\<open>newtonEndStep\<close> sets \<^verbatim>\<open>relDefect_\<close> to 0, and so it does for
  identical iterates (fewer than \<open>2 ^ 32\<close> entries); \<^verbatim>\<open>newtonConverged\<close> then returns true
  whenever the tolerance is not negative.
\<close>

theorem newtonEndStep_zero_defect:
  "newtonEndStep P this [] uOld = Some ((ParentType_newtonEndStep P this [] uOld)\<lparr>relDefect := 0\<rparr>)
   \<and> (0 \<le> tolerance (ParentType_newtonEndStep P this [] uOld) \<longrightarrow>
        fst (newtonConverged ((ParentType_newtonEndStep P this [] uOld)\<lparr>relDefect := 0\<rparr>)))
   \<and> (length u < 2 ^ 32 \<longrightarrow>
        newtonEndStep P this u u = Some ((ParentType_newtonEndStep P this u u)\<lparr>relDefect := 0\<rparr>)
        \<and> (0 \<le> tolerance (ParentType_newtonEndStep P this u u) \<longrightarrow>
             fst (newtonConverged ((ParentType_newtonEndStep P this u u)\<lparr>relDefect := 0\<rparr>))))"
proof -
  have "newtonEndStep P this [] uOld = Some ((ParentType_newtonEndStep P this [] uOld)\<lparr>relDefect := 0\<rparr>)"
    by (simp add: newtonEndStep_Some defects_def)
  moreover have "newtonEndStep P this u u = Some ((ParentType_newtonEndStep P this u u)\<lparr>relDefect := 0\<rparr>)"
    if "length u < 2 ^ 32"
    using that by (simp add: newtonEndStep_Some Max_defects_same)
  ultimately show ?thesis
    by (simp add: newtonConverged_def)
qed

theorem newtonEndStep_zero_defect_witness:
  "0 \<le> tolerance (ParentType_newtonEndStep exParent (LensOnePTwoCNewtonController_ctor 10) [] exUOld)
   \<and> fst (newtonConverged ((LensOnePTwoCNewtonController_ctor 10)\<lparr>relDefect := 0\<rparr>))
   \<and> length exU < 2 ^ 32
   \<and> newtonEndStep exParent (LensOnePTwoCNewtonController_ctor 10) exU exU =
       Some ((LensOnePTwoCNewtonController_ctor 10)\<lparr>relDefect := 0\<rparr>)
   \<and> 0 \<le> tolerance (ParentType_newtonEndStep exParent (LensOnePTwoCNewtonController_ctor 10) exU exU)"
proof -
  have l: "length exU < 2 ^ 32"
    by (simp add: exU_def)
  have t: "0 \<le> tolerance (ParentType_newtonEndStep exParent (LensOnePTwoCNewtonController_ctor 10) v w)" for v w
    by (simp add: exParent_def LensOnePTwoCNewtonController_ctor_def)
  from newtonEndStep_zero_defect [of exParent "LensOnePTwoCNewtonController_ctor 10" exUOld exU]
  show ?thesis
    using l t by (simp add: exParent_def)
qed

end
